theory Spec2Isabelle
  imports Complex_Main
begin

section \<open>Numbers\<close>

text \<open>
  The program computes with JavaScript numbers, which are IEEE 754 doubles. Two
  models of them are used here. The formula of \<open>effectiveHours\<close> and the duration
  between two clock times are real-valued results; they are stated over
  \<^typ>\<open>real\<close> with exact arithmetic, where neither the rounding of a double nor
  its range is represented. The performance percentage and the printed average
  are an integer and a string that the last place of a double can decide; they
  are computed as the program computes them, on the type \<open>double\<close> below, with
  every operation rounded to the nearest double, a tie going to the even one.
\<close>

subsection \<open>Doubles\<close>

text \<open>
  A double is a finite value, an infinity or NaN. \<open>Dbl r\<close> is meant for \<open>r\<close> the
  value of a double; every operation below returns such values. The two zeros
  are one value: their sign shows only when a number is divided by zero, which
  none of the functions modelled here does, and there the zero is taken as +0.
\<close>

datatype double = Dbl real | PInf | NInf | DNaN

text \<open>The nearest integer, the even one of two that are equally near.\<close>

definition round_half_even :: "real \<Rightarrow> int" where
  "round_half_even y =
     (let f = \<lfloor>y\<rfloor>
      in if y - of_int f < 1 / 2 then f
         else if 1 / 2 < y - of_int f then f + 1
         else if even f then f else f + 1)"

text \<open>
  The binary exponent of \<open>a > 0\<close>, the \<open>e\<close> with \<open>2^e \<le> a < 2^(e+1)\<close>, found by
  halving or doubling at most \<open>k\<close> times; 1100 steps cover every \<open>a\<close> from the
  least normal double up to the overflow threshold \<open>huge\<close>. Below the normal
  range the exponent of a double stays at -1022.
\<close>

fun binade :: "nat \<Rightarrow> real \<Rightarrow> int" where
  "binade 0 a = 0"
| "binade (Suc k) a =
     (if 2 \<le> a then binade k (a / 2) + 1
      else if a < 1 then binade k (a * 2) - 1
      else 0)"

definition huge :: real where
  "huge = 2 ^ 1024"

definition exponent_of :: "real \<Rightarrow> int" where
  "exponent_of a = (if a < 1 / 2 ^ 1022 then - 1022 else binade 1100 a)"

text \<open>
  Rounding a real to a double: to the nearest multiple of \<open>2^(e-52)\<close>, that is
  to 53 significant bits, a tie to the even multiple, and to an infinity when
  the result reaches \<open>2^1024\<close>.
\<close>

definition round_to_double :: "real \<Rightarrow> double" where
  "round_to_double x =
     (let a = \<bar>x\<bar>
      in if a = 0 then Dbl 0
         else if huge \<le> a then (if x < 0 then NInf else PInf)
         else
           (let e = exponent_of a;
                q = 2 powi (e - 52);
                r = of_int (round_half_even (a / q)) * q
            in if huge \<le> r then (if x < 0 then NInf else PInf)
               else Dbl (if x < 0 then - r else r)))"

text \<open>\<open>a + b\<close>, \<open>a - b\<close>, \<open>a * b\<close> and \<open>a / b\<close>.\<close>

fun dadd :: "double \<Rightarrow> double \<Rightarrow> double" where
  "dadd (Dbl a) (Dbl b) = round_to_double (a + b)"
| "dadd DNaN _ = DNaN"
| "dadd _ DNaN = DNaN"
| "dadd PInf NInf = DNaN"
| "dadd NInf PInf = DNaN"
| "dadd PInf _ = PInf"
| "dadd _ PInf = PInf"
| "dadd NInf _ = NInf"
| "dadd _ NInf = NInf"

fun dsub :: "double \<Rightarrow> double \<Rightarrow> double" where
  "dsub (Dbl a) (Dbl b) = round_to_double (a - b)"
| "dsub DNaN _ = DNaN"
| "dsub _ DNaN = DNaN"
| "dsub PInf PInf = DNaN"
| "dsub NInf NInf = DNaN"
| "dsub PInf _ = PInf"
| "dsub _ PInf = NInf"
| "dsub NInf _ = NInf"
| "dsub _ NInf = PInf"

fun dmul :: "double \<Rightarrow> double \<Rightarrow> double" where
  "dmul (Dbl a) (Dbl b) = round_to_double (a * b)"
| "dmul DNaN _ = DNaN"
| "dmul _ DNaN = DNaN"
| "dmul PInf (Dbl b) = (if b = 0 then DNaN else if 0 < b then PInf else NInf)"
| "dmul NInf (Dbl b) = (if b = 0 then DNaN else if 0 < b then NInf else PInf)"
| "dmul (Dbl a) PInf = (if a = 0 then DNaN else if 0 < a then PInf else NInf)"
| "dmul (Dbl a) NInf = (if a = 0 then DNaN else if 0 < a then NInf else PInf)"
| "dmul PInf PInf = PInf"
| "dmul NInf NInf = PInf"
| "dmul PInf NInf = NInf"
| "dmul NInf PInf = NInf"

fun ddiv :: "double \<Rightarrow> double \<Rightarrow> double" where
  "ddiv (Dbl a) (Dbl b) =
     (if b = 0 then (if a = 0 then DNaN else if 0 < a then PInf else NInf)
      else round_to_double (a / b))"
| "ddiv DNaN _ = DNaN"
| "ddiv _ DNaN = DNaN"
| "ddiv (Dbl a) _ = Dbl 0"
| "ddiv PInf (Dbl b) = (if 0 \<le> b then PInf else NInf)"
| "ddiv NInf (Dbl b) = (if 0 \<le> b then NInf else PInf)"
| "ddiv _ _ = DNaN"

text \<open>\<open>a < b\<close> and \<open>a <= b\<close>: a comparison with NaN is false.\<close>

fun dless :: "double \<Rightarrow> double \<Rightarrow> bool" where
  "dless (Dbl a) (Dbl b) = (a < b)"
| "dless DNaN _ = False"
| "dless _ DNaN = False"
| "dless _ NInf = False"
| "dless NInf _ = True"
| "dless PInf _ = False"
| "dless _ PInf = True"

fun dle :: "double \<Rightarrow> double \<Rightarrow> bool" where
  "dle (Dbl a) (Dbl b) = (a \<le> b)"
| "dle DNaN _ = False"
| "dle _ DNaN = False"
| "dle NInf _ = True"
| "dle _ PInf = True"
| "dle _ _ = False"

definition isNaN :: "double \<Rightarrow> bool" where
  "isNaN d = (d = DNaN)"

definition Math_min :: "double \<Rightarrow> double \<Rightarrow> double" where
  "Math_min a b = (if isNaN a \<or> isNaN b then DNaN else if dle a b then a else b)"

definition Math_max :: "double \<Rightarrow> double \<Rightarrow> double" where
  "Math_max a b = (if isNaN a \<or> isNaN b then DNaN else if dle a b then b else a)"

text \<open>
  \<open>Math.round\<close>: the nearest integer, a tie going to the larger one; an infinity
  and NaN are returned as they are.
\<close>

fun Math_round :: "double \<Rightarrow> double" where
  "Math_round (Dbl x) = Dbl (of_int \<lfloor>x + 1 / 2\<rfloor>)"
| "Math_round d = d"

section \<open>utils.ts: effective hours and the performance percentage\<close>

record DateData =
  performance :: double
  hours :: double
  overtime :: bool
  freeDay :: bool

text \<open>The formula of \<open>effectiveHours\<close> over the reals.\<close>

definition effectiveHours :: "real \<Rightarrow> bool \<Rightarrow> bool \<Rightarrow> real" where
  "effectiveHours hrs ot fd =
     (if fd then hrs * 0.967
      else if ot then
        (let clampedHours = max 8 (min hrs 16)
         in 7.25 + (clampedHours - 8) * 0.967)
      else
        (if hrs < 4 then hrs
         else if hrs \<le> 8 then hrs - 0.75
         else 7.25 + (hrs - 8) * 0.967))"

text \<open>
  \<open>effectiveHours\<close> as the program evaluates it: the same branches on doubles,
  each operation rounded. The literal \<open>0.967\<close> is the double nearest to it; the
  other literals are doubles exactly.
\<close>

definition c0_967 :: double where
  "c0_967 = round_to_double 0.967"

definition effectiveHours_fl :: "double \<Rightarrow> bool \<Rightarrow> bool \<Rightarrow> double" where
  "effectiveHours_fl hrs ot fd =
     (if fd then dmul hrs c0_967
      else if ot then
        (let clampedHours = Math_max (Dbl 8) (Math_min hrs (Dbl 16))
         in dadd (Dbl 7.25) (dmul (dsub clampedHours (Dbl 8)) c0_967))
      else
        (if dless hrs (Dbl 4) then hrs
         else if dle hrs (Dbl 8) then dsub hrs (Dbl 0.75)
         else dadd (Dbl 7.25) (dmul (dsub hrs (Dbl 8)) c0_967)))"

definition computePerformancePercentage :: "DateData \<Rightarrow> double" where
  "computePerformancePercentage entry =
     (let eff = effectiveHours_fl (hours entry) (overtime entry) (freeDay entry)
      in if dle eff (Dbl 0) then Dbl 0
         else Math_round (dmul (ddiv (performance entry) eff) (Dbl 100)))"


section \<open>Shift classification (App.tsx and PerformanceModal.tsx)\<close>

datatype ShiftCategory = morning | evening | night

text \<open>
  Both functions read the clock with \<open>new Date()\<close>; here the hour and the minute
  that \<open>getHours()\<close> and \<open>getMinutes()\<close> return are the arguments.
\<close>

definition getOngoingShift :: "int \<Rightarrow> int \<Rightarrow> ShiftCategory" where
  "getOngoingShift hr mn =
     (let totalMins = hr * 60 + mn;
          timeToMins = (\<lambda>h m. h * 60 + m);
          morningStart = timeToMins 5 45;
          morningEnd = timeToMins 14 15;
          eveningStart = timeToMins 13 45;
          eveningEnd = timeToMins 22 15;
          inRange = (\<lambda>t start end. t \<ge> start \<and> t < end)
      in if inRange totalMins morningStart morningEnd then morning
         else if inRange totalMins eveningStart eveningEnd then evening
         else night)"

definition getDefaultStartTime :: "int \<Rightarrow> int \<Rightarrow> string" where
  "getDefaultStartTime hr mn =
     (let totalMins = hr * 60 + mn;
          morningStart = 5 * 60 + 45;
          morningEnd = 14 * 60 + 15;
          eveningStart = 13 * 60 + 45;
          eveningEnd = 22 * 60 + 15
      in if totalMins \<ge> morningStart \<and> totalMins < morningEnd then ''05:45''
         else if totalMins \<ge> eveningStart \<and> totalMins < eveningEnd then ''13:45''
         else ''21:45'')"

text \<open>The start boundary that the specification attaches to each category.\<close>

fun startBoundary :: "ShiftCategory \<Rightarrow> string" where
  "startBoundary morning = ''05:45''"
| "startBoundary evening = ''13:45''"
| "startBoundary night = ''21:45''"

section \<open>JavaScript values that the clock-time code meets\<close>

text \<open>
  A number of the clock-time code: a real, or NaN. The infinities are not
  represented, and the string \<open>Infinity\<close> converts to \<open>NaN\<close> here: the \<open>Date\<close>
  constructor, which receives the converted strings, treats the two alike, and
  the time of the date is NaN either way. A numeric literal converts to its
  exact value: it is not rounded to a double, and a literal beyond the range
  of a double, such as \<open>1e400\<close>, stays finite here where JavaScript gives
  Infinity.
\<close>

datatype jsnum = Num real | NaN

text \<open>\<open>a < b\<close>, \<open>a - b\<close> and \<open>a / b\<close> on numbers: a comparison with NaN is false.\<close>

fun js_less :: "jsnum \<Rightarrow> jsnum \<Rightarrow> bool" where
  "js_less (Num a) (Num b) = (a < b)"
| "js_less _ _ = False"

fun js_minus :: "jsnum \<Rightarrow> jsnum \<Rightarrow> jsnum" where
  "js_minus (Num a) (Num b) = Num (a - b)"
| "js_minus _ _ = NaN"

fun js_divide :: "jsnum \<Rightarrow> jsnum \<Rightarrow> jsnum" where
  "js_divide (Num a) (Num b) = (if b = 0 then NaN else Num (a / b))"
| "js_divide _ _ = NaN"

subsection \<open>\<open>Number(string)\<close>\<close>

text \<open>
  Strings are lists of 8-bit characters, read as code units below 256. The
  conversion follows the grammar \<open>StringNumericLiteral\<close> of the language
  standard: white space is stripped at both ends, the empty string is 0, then
  either a binary, octal or hexadecimal integer without sign, or a decimal
  literal with an optional sign, fraction and exponent. Anything else is NaN.
\<close>

definition StrWhiteSpaceChar :: "char \<Rightarrow> bool" where
  "StrWhiteSpaceChar c \<longleftrightarrow>
     c \<in> set [CHR 0x09, CHR 0x0A, CHR 0x0B, CHR 0x0C, CHR 0x0D, CHR 0x20, CHR 0xA0]"

definition trim :: "string \<Rightarrow> string" where
  "trim s = rev (dropWhile StrWhiteSpaceChar (rev (dropWhile StrWhiteSpaceChar s)))"

definition digit_value :: "char \<Rightarrow> nat option" where
  "digit_value c =
     (let n = (of_char c :: nat)
      in if 48 \<le> n \<and> n \<le> 57 then Some (n - 48)
         else if 97 \<le> n \<and> n \<le> 102 then Some (n - 87)
         else if 65 \<le> n \<and> n \<le> 70 then Some (n - 55)
         else None)"

definition is_digit :: "nat \<Rightarrow> char \<Rightarrow> bool" where
  "is_digit radix c = (case digit_value c of None \<Rightarrow> False | Some d \<Rightarrow> d < radix)"

definition digits_value :: "nat \<Rightarrow> string \<Rightarrow> nat" where
  "digits_value radix ds =
     foldl (\<lambda>acc c. acc * radix + (case digit_value c of None \<Rightarrow> 0 | Some d \<Rightarrow> d)) 0 ds"

definition NonDecimalIntegerLiteral :: "string \<Rightarrow> real option" where
  "NonDecimalIntegerLiteral s =
     (case s of
        c0 # c1 # ds \<Rightarrow>
          (let radix = (if c1 = CHR ''x'' \<or> c1 = CHR ''X'' then 16
                        else if c1 = CHR ''o'' \<or> c1 = CHR ''O'' then 8
                        else if c1 = CHR ''b'' \<or> c1 = CHR ''B'' then 2
                        else 0)
           in if c0 = CHR ''0'' \<and> radix \<noteq> 0 \<and> ds \<noteq> [] \<and> list_all (is_digit radix) ds
              then Some (real (digits_value radix ds))
              else None)
      | _ \<Rightarrow> None)"

text \<open>The exponent after the mantissa: absent is 0, malformed is \<open>None\<close>.\<close>

definition ExponentPart :: "string \<Rightarrow> int option" where
  "ExponentPart s =
     (case s of
        [] \<Rightarrow> Some 0
      | c # r \<Rightarrow>
          (if c = CHR ''e'' \<or> c = CHR ''E'' then
             (let neg = (case r of [] \<Rightarrow> False | x # _ \<Rightarrow> x = CHR ''-'');
                  ds = (case r of [] \<Rightarrow> []
                        | x # r' \<Rightarrow> if x = CHR ''-'' \<or> x = CHR ''+'' then r' else r)
              in if ds \<noteq> [] \<and> list_all (is_digit 10) ds
                 then Some (if neg then - int (digits_value 10 ds) else int (digits_value 10 ds))
                 else None)
           else None))"

definition StrUnsignedDecimalLiteral :: "string \<Rightarrow> real option" where
  "StrUnsignedDecimalLiteral s =
     (let ip = takeWhile (is_digit 10) s;
          r1 = dropWhile (is_digit 10) s;
          dot = (case r1 of [] \<Rightarrow> False | x # _ \<Rightarrow> x = CHR ''.'');
          fp = (if dot then takeWhile (is_digit 10) (tl r1) else []);
          r2 = (if dot then dropWhile (is_digit 10) (tl r1) else r1)
      in if ip = [] \<and> fp = [] then None
         else (case ExponentPart r2 of
                 None \<Rightarrow> None
               | Some e \<Rightarrow>
                   (let m = real (digits_value 10 ip)
                            + real (digits_value 10 fp) / 10 ^ length fp
                    in Some (if 0 \<le> e then m * 10 ^ nat e else m / 10 ^ nat (- e)))))"

definition Number_js :: "string \<Rightarrow> jsnum" where
  "Number_js s =
     (let t = trim s
      in if t = [] then Num 0
         else (case NonDecimalIntegerLiteral t of
                 Some r \<Rightarrow> Num r
               | None \<Rightarrow>
                   (let neg = (hd t = CHR ''-'');
                        u = (if hd t = CHR ''-'' \<or> hd t = CHR ''+'' then tl t else t)
                    in if u = ''Infinity'' then NaN
                       else (case StrUnsignedDecimalLiteral u of
                               None \<Rightarrow> NaN
                             | Some r \<Rightarrow> Num (if neg then - r else r)))))"

subsection \<open>\<open>split\<close>, array elements and dates\<close>

text \<open>\<open>s.split(sep)\<close> for a separator of one character.\<close>

fun split_on :: "char \<Rightarrow> string \<Rightarrow> string list" where
  "split_on sep [] = [[]]"
| "split_on sep (c # cs) =
     (if c = sep then [] # split_on sep cs
      else (case split_on sep cs of
              [] \<Rightarrow> [[c]]
            | w # ws \<Rightarrow> (c # w) # ws))"

text \<open>
  An element bound by array destructuring. Past the end it is \<open>undefined\<close>, which
  the comparison and the \<open>Date\<close> constructor both convert to NaN.
\<close>

definition element :: "jsnum list \<Rightarrow> nat \<Rightarrow> jsnum" where
  "element xs i = (if i < length xs then xs ! i else NaN)"

definition ToIntegerOrInfinity :: "real \<Rightarrow> int" where
  "ToIntegerOrInfinity x = (if x < 0 then \<lceil>x\<rceil> else \<lfloor>x\<rfloor>)"

text \<open>
  \<open>new Date(0, 0, day, h, m).getTime()\<close> in milliseconds, counted from the local
  midnight that \<open>new Date(0, 0, 0, 0, 0)\<close> denotes; the source uses only the
  difference of two such values. The date is invalid, and its time NaN, when an
  argument is not a finite number; finite arguments are truncated to integers.
  The local clock is taken to keep one offset over the two days concerned, and
  the limit of 8.64e15 ms on a time value is not represented.
\<close>

definition Date_getTime :: "int \<Rightarrow> jsnum \<Rightarrow> jsnum \<Rightarrow> jsnum" where
  "Date_getTime day h m =
     (case (h, m) of
        (Num hh, Num mm) \<Rightarrow>
          Num (real_of_int (day * 86400000 + ToIntegerOrInfinity hh * 3600000
                            + ToIntegerOrInfinity mm * 60000))
      | _ \<Rightarrow> NaN)"

section \<open>PerformanceModal.tsx: hours between two clock times\<close>

definition computeHoursFromTimes :: "string \<Rightarrow> string \<Rightarrow> jsnum" where
  "computeHoursFromTimes start end =
     (if start = [] \<or> end = [] then Num 0
      else
        (let s = map Number_js (split_on CHR '':'' start);
             sh = element s 0; sm = element s 1;
             e = map Number_js (split_on CHR '':'' end);
             eh = element e 0; em = element e 1;
             startDate = Date_getTime 0 sh sm;
             endDate = (if js_less eh sh then Date_getTime 1 eh em else Date_getTime 0 eh em);
             diff = js_divide (js_minus endDate startDate) (Num (1000 * 60 * 60))
         in if js_less diff (Num 0) then Num 0 else diff))"

text \<open>
  The outcome of a call in the error-or-value form of the specification. The
  body of \<open>computeHoursFromTimes\<close> has no \<open>throw\<close>, and none of the operations it
  applies to its two strings throws, so every call returns its number.
\<close>

datatype error = InvalidTimeFormat

definition computeHoursFromTimes_outcome :: "string \<Rightarrow> string \<Rightarrow> error + jsnum" where
  "computeHoursFromTimes_outcome start end = Inr (computeHoursFromTimes start end)"

text \<open>
  A well-formed clock time of the specification: two digits, a colon, two
  digits, from 00:00 to 23:59; and the hour and the minute it denotes.
\<close>

definition is_ClockTime :: "string \<Rightarrow> bool" where
  "is_ClockTime s \<longleftrightarrow>
     (case s of
        [h1, h0, c, m1, m0] \<Rightarrow>
          c = CHR '':'' \<and> list_all (is_digit 10) [h1, h0, m1, m0]
          \<and> digits_value 10 [h1, h0] \<le> 23 \<and> digits_value 10 [m1, m0] \<le> 59
      | _ \<Rightarrow> False)"

definition hourOf :: "string \<Rightarrow> nat" where
  "hourOf s = digits_value 10 (take 2 s)"

definition minuteOf :: "string \<Rightarrow> nat" where
  "minuteOf s = digits_value 10 (drop 3 s)"

section \<open>utils.ts: the average over a period\<close>

subsection \<open>Objects and the conversions applied to them\<close>

text \<open>
  The values a stored property holds here: no value, a boolean, a number, or
  an object. An object is the list of its own properties in the order
  \<open>Object.keys\<close> reports them; a key occurs once.
\<close>

datatype jsval =
    VUndefined
  | VNull
  | VBool bool
  | VNum double
  | VObj "(string \<times> jsval) list"

type_synonym object = "(string \<times> jsval) list"

text \<open>\<open>obj[name]\<close>: a property that is absent reads as \<open>undefined\<close>.\<close>

definition get_property :: "object \<Rightarrow> string \<Rightarrow> jsval" where
  "get_property obj name = (case map_of obj name of None \<Rightarrow> VUndefined | Some v \<Rightarrow> v)"

text \<open>\<open>Number(v)\<close>; a plain object converts to NaN.\<close>

fun Number_val :: "jsval \<Rightarrow> double" where
  "Number_val VUndefined = DNaN"
| "Number_val VNull = Dbl 0"
| "Number_val (VBool b) = Dbl (if b then 1 else 0)"
| "Number_val (VNum n) = n"
| "Number_val (VObj _) = DNaN"

subsection \<open>\<open>toFixed(2)\<close>\<close>

text \<open>The digit \<open>d\<close>, for \<open>0 \<le> d < 10\<close> as at each use below, and an integer \<open>n \<ge> 0\<close> in decimal.\<close>

definition digit_char :: "int \<Rightarrow> char" where
  "digit_char d = ''0123456789'' ! nat d"

function decimal :: "int \<Rightarrow> string" where
  "decimal n =
     (if n < 10 then [digit_char n] else decimal (n div 10) @ [digit_char (n mod 10)])"
  by pat_completeness auto
termination
  by (relation "measure nat") auto

text \<open>
  \<open>Number::toString\<close> for a double \<open>x \<ge> 1e21\<close>, which is an integer of \<open>d \<ge> 22\<close>
  digits. The digits printed are the fewest, \<open>k\<close> of them, whose value
  \<open>s * 10^(d-k)\<close> converts back to \<open>x\<close>; of two such values the nearer to \<open>x\<close> is
  taken, and the even \<open>s\<close> when they are equally near. Seventeen digits always
  suffice. The result is in exponent form, \<open>d.ddd\<close> followed by \<open>e+\<close> and the
  decimal exponent.
\<close>

definition nearer :: "real \<Rightarrow> int \<Rightarrow> int \<Rightarrow> int" where
  "nearer x u lo =
     (let hi = lo + u
      in if x - of_int lo < of_int hi - x then lo
         else if of_int hi - x < x - of_int lo then hi
         else if even (lo div u) then lo else hi)"

primrec shortest_decimal :: "real \<Rightarrow> nat \<Rightarrow> nat list \<Rightarrow> int" where
  "shortest_decimal x d [] =
     (let u = 10 ^ (d - 17) in nearer x u (\<lfloor>x / of_int u\<rfloor> * u))"
| "shortest_decimal x d (k # ks) =
     (let u = 10 ^ (d - k);
          lo = \<lfloor>x / of_int u\<rfloor> * u;
          hi = lo + u;
          ok_lo = (round_to_double (of_int lo) = Dbl x);
          ok_hi = (round_to_double (of_int hi) = Dbl x)
      in if ok_lo \<and> ok_hi then nearer x u lo
         else if ok_lo then lo
         else if ok_hi then hi
         else shortest_decimal x d ks)"

definition Number_toString_large :: "real \<Rightarrow> string" where
  "Number_toString_large x =
     (let d = length (decimal \<lfloor>x\<rfloor>);
          ds = decimal (shortest_decimal x d [1..<17]);
          sd = rev (dropWhile (\<lambda>c. c = CHR ''0'') (rev ds))
      in (case sd of
            [] \<Rightarrow> []
          | c # rest \<Rightarrow> (if rest = [] then [c] else c # CHR ''.'' # rest))
         @ ''e+'' @ decimal (int (length ds) - 1))"

text \<open>
  \<open>x.toFixed(2)\<close>. For a finite \<open>x\<close> below 1e21 in size: with \<open>n\<close> the integer
  nearest to \<open>|x| * 100\<close>, the larger one in a tie, the digits of \<open>n\<close> with a
  point before the last two, after a minus sign when \<open>x < 0\<close>. The value
  rounded is the exact value of the double.
\<close>

fun toFixed2 :: "double \<Rightarrow> string" where
  "toFixed2 (Dbl x) =
     (if x < 0 then ''-'' else [])
     @ (if 10 ^ 21 \<le> \<bar>x\<bar> then Number_toString_large \<bar>x\<bar>
        else
          (let n = \<lfloor>\<bar>x\<bar> * 100 + 1 / 2\<rfloor>
           in decimal (n div 100) @ ''.''
              @ [digit_char (n mod 100 div 10), digit_char (n mod 10)]))"
| "toFixed2 PInf = ''Infinity''"
| "toFixed2 NInf = ''-Infinity''"
| "toFixed2 DNaN = ''NaN''"

subsection \<open>\<open>calculateAverage\<close>\<close>

text \<open>
  \<open>Date\<close> stands for \<open>new Date(...)\<close> on a string, whatever a date is for the
  filter. \<open>data\<close> is the object that maps date strings to entries, each entry an
  object; \<open>data[dateString]\<close> for a key taken from \<open>Object.keys(data)\<close> is the
  entry listed with that key, so the filtered keys are carried with their
  entries. The function has two parameters; a third argument of a call is
  ignored.
\<close>

definition calculateAverage ::
  "(string \<Rightarrow> 'date) \<Rightarrow> (string \<times> object) list \<Rightarrow> ('date \<Rightarrow> bool) \<Rightarrow> string" where
  "calculateAverage Date data filterDates =
     (let filteredDates =
            filter (\<lambda>(dateString, entry).
                      let dateObj = Date (dateString @ ''T00:00:00'')
                      in filterDates dateObj)
                   data;
          total =
            foldl (\<lambda>sum (dateString, entry).
                     let perf = Number_val (get_property entry ''performance'')
                     in dadd sum (if isNaN perf then Dbl 0 else perf))
                  (Dbl 0) filteredDates;
          average = (if length filteredDates > 0
                     then ddiv total (Dbl (real (length filteredDates))) else Dbl 0)
      in toFixed2 average)"

subsection \<open>The records that App.tsx stores\<close>

text \<open>
  App.tsx keeps, under each date, a record with an optional \<open>normal\<close> and an
  optional \<open>forklift\<close> entry, and passes such records to \<open>calculateAverage\<close>
  together with a third argument naming the track.
\<close>

record DailyData =
  normal :: "DateData option"
  forklift :: "DateData option"

definition DateData_object :: "DateData \<Rightarrow> object" where
  "DateData_object e =
     [(''performance'', VNum (performance e)), (''hours'', VNum (hours e)),
      (''overtime'', VBool (overtime e)), (''freeDay'', VBool (freeDay e))]"

definition DailyData_object :: "DailyData \<Rightarrow> object" where
  "DailyData_object d =
     (case normal d of None \<Rightarrow> [] | Some e \<Rightarrow> [(''normal'', VObj (DateData_object e))])
     @ (case forklift d of None \<Rightarrow> []
        | Some e \<Rightarrow> [(''forklift'', VObj (DateData_object e))])"

datatype Track = Normal | Forklift

definition track_of :: "Track \<Rightarrow> DailyData \<Rightarrow> DateData option" where
  "track_of t d = (case t of Normal \<Rightarrow> normal d | Forklift \<Rightarrow> forklift d)"

text \<open>
  The mean as the specification words it, for comparison with the code: keep
  every key whose parsed date satisfies \<open>include\<close> and whose record has the
  requested track, sum the raw performance of the kept entries, a value that
  is no finite number counting as 0, divide by their number, and give 0 when
  none is kept.
\<close>

definition numeric_or_0 :: "double \<Rightarrow> real" where
  "numeric_or_0 d = (case d of Dbl p \<Rightarrow> p | _ \<Rightarrow> 0)"

definition meanPerformance_spec ::
  "(string \<Rightarrow> 'date) \<Rightarrow> (string \<times> DailyData) list \<Rightarrow> ('date \<Rightarrow> bool) \<Rightarrow> Track \<Rightarrow> real"
  where
  "meanPerformance_spec Date entries include t =
     (let surviving =
            [e. (k, d) \<leftarrow> entries, include (Date (k @ ''T00:00:00'')),
                e \<leftarrow> (case track_of t d of None \<Rightarrow> [] | Some e \<Rightarrow> [e])]
      in if surviving = [] then 0
         else sum_list (map (numeric_or_0 \<circ> performance) surviving)
              / real (length surviving))"

text \<open>The filter of the examples: every date.\<close>

definition every_date :: "string \<Rightarrow> bool" where
  "every_date d = True"

section \<open>Effective hours\<close>

text \<open>
  Claim C1. On a normal day (no free day, no overtime) and for every \<open>hours \<ge> 0\<close>,
  the effective hours are \<open>hours\<close> below 4 hours, \<open>hours - 0.75\<close> from 4 to 8 hours
  inclusive, and \<open>7.25 + (hours - 8) * 0.967\<close> above 8 hours. In particular 8 hours
  give 7.25, 3.9 hours give 3.9 and 4 hours give 3.25.
\<close>

theorem effectiveHours_normal_day:
  assumes "0 \<le> h"
  shows "(h < 4 \<longrightarrow> effectiveHours h False False = h)
       \<and> (4 \<le> h \<and> h \<le> 8 \<longrightarrow> effectiveHours h False False = h - 0.75)
       \<and> (8 < h \<longrightarrow> effectiveHours h False False = 7.25 + (h - 8) * 0.967)
       \<and> effectiveHours 8 False False = 7.25
       \<and> effectiveHours 3.9 False False = 3.9
       \<and> effectiveHours 4 False False = 3.25"
  by (simp add: effectiveHours_def)

theorem effectiveHours_normal_day_witness:
  "effectiveHours 2 False False = 2
   \<and> effectiveHours 6 False False = 5.25
   \<and> effectiveHours 10 False False = 9.184"
  using effectiveHours_normal_day [of 2] effectiveHours_normal_day [of 6]
    effectiveHours_normal_day [of 10]
  by simp

text \<open>
  Claim C2. With overtime on a regular day, the effective hours are
  \<open>7.25 + (clamp(hours, 8, 16) - 8) * 0.967\<close> for every \<open>hours\<close>, where
  \<open>clamp(hours, 8, 16) = max(8, min(hours, 16))\<close>. So they do not decrease as
  \<open>hours\<close> grows within [8, 16], they are 7.25 for every \<open>hours \<le> 8\<close>, and
  \<open>7.25 + 8 * 0.967\<close> for every \<open>hours \<ge> 16\<close>.
\<close>

theorem effectiveHours_overtime:
  "effectiveHours h True False = 7.25 + (max 8 (min h 16) - 8) * 0.967
   \<and> (8 \<le> a \<and> a \<le> b \<and> b \<le> 16 \<longrightarrow>
        effectiveHours a True False \<le> effectiveHours b True False)
   \<and> (h \<le> 8 \<longrightarrow> effectiveHours h True False = 7.25)
   \<and> (16 \<le> h \<longrightarrow> effectiveHours h True False = 7.25 + 8 * 0.967)"
  by (auto simp add: effectiveHours_def min_def max_def)

theorem effectiveHours_overtime_witness:
  "effectiveHours 9 True False \<le> effectiveHours 12 True False
   \<and> effectiveHours 3 True False = 7.25
   \<and> effectiveHours 20 True False = 14.986"
  using effectiveHours_overtime [of 3 9 12] effectiveHours_overtime [of 20 9 12]
  by simp

text \<open>
  Claim C3. On a free day the effective hours are \<open>hours * 0.967\<close> for every
  \<open>hours\<close> (so for every \<open>hours \<ge> 0\<close>) and for both values of the overtime flag:
  nothing is clamped, no base hours are split off, and the free-day flag
  overrides the overtime flag.
\<close>

theorem effectiveHours_free_day:
  "effectiveHours h ot True = h * 0.967"
  by (simp add: effectiveHours_def)

section \<open>Rounding to a double\<close>

lemma binade_numeral:
  "binade (numeral n) a =
     (if 2 \<le> a then binade (pred_numeral n) (a / 2) + 1
      else if a < 1 then binade (pred_numeral n) (a * 2) - 1
      else 0)"
  by (simp add: numeral_eq_Suc)

lemmas double_eval =
  round_to_double_def exponent_of_def huge_def round_half_even_def Let_def
  power_int_def binade_numeral power_one_over

text \<open>The exponent search finds the binade of its argument.\<close>

lemma binade_correct:
  assumes "2 powi (- int k) \<le> a" and "a < 2 ^ (k + 1)"
  shows "2 powi (binade k a) \<le> a \<and> a < 2 powi (binade k a + 1)"
  using assms
proof (induction k arbitrary: a)
  case 0
  then show ?case by simp
next
  case (Suc k)
  show ?case
  proof (cases "2 \<le> a")
    case True
    have "2 powi (- int k) \<le> (1::real)"
      by (simp add: power_int_minus inverse_le_1_iff one_le_power)
    with True have lo: "2 powi (- int k) \<le> a / 2" by linarith
    have hi: "a / 2 < 2 ^ (k + 1)" using Suc.prems(2) by simp
    from Suc.IH [OF lo hi] True show ?thesis
      by (simp add: power_int_add power_int_diff field_simps)
  next
    case False
    show ?thesis
    proof (cases "a < 1")
      case True
      have "(2::real) powi (- int k) = 2 powi (- int (Suc k) + 1)"
        by simp
      also have "\<dots> = 2 powi (- int (Suc k)) * 2"
        by (subst power_int_add) simp_all
      finally have "(2::real) powi (- int (Suc k)) * 2 = 2 powi (- int k)"
        by simp
      with Suc.prems(1) have lo: "2 powi (- int k) \<le> a * 2" by linarith
      have "(2::real) \<le> 2 ^ (k + 1)" by (simp add: self_le_power)
      with True have hi: "a * 2 < 2 ^ (k + 1)" by linarith
      from Suc.IH [OF lo hi] True False show ?thesis
        by (simp add: power_int_add power_int_diff field_simps)
    next
      case ge: False
      with False show ?thesis by simp
    qed
  qed
qed

lemma pow2_less_D:
  assumes "(2::real) powi m < 2 powi n"
  shows "m < n"
proof (rule ccontr)
  assume "\<not> m < n"
  then have "n \<le> m" by simp
  then have "(2::real) powi n \<le> 2 powi m"
    by (rule power_int_increasing) simp
  with assms show False by simp
qed

lemma pow2_le_D:
  assumes "(2::real) powi m \<le> 2 powi n"
  shows "m \<le> n"
proof (rule ccontr)
  assume "\<not> m \<le> n"
  then have "n < m" by simp
  then have "(2::real) powi n < 2 powi m"
    by (rule power_int_strict_increasing) simp
  with assms show False by simp
qed

lemma round_half_even_ge:
  assumes "of_int m \<le> y"
  shows "m \<le> round_half_even y"
proof -
  from assms have "m \<le> \<lfloor>y\<rfloor>" by (simp add: le_floor_iff)
  then show ?thesis
    unfolding round_half_even_def Let_def by auto
qed

lemma round_half_even_le:
  assumes "y \<le> of_int m"
  shows "round_half_even y \<le> m"
proof (cases "y = of_int \<lfloor>y\<rfloor>")
  case True
  then have "round_half_even y = \<lfloor>y\<rfloor>"
    unfolding round_half_even_def Let_def by simp
  moreover from assms have "\<lfloor>y\<rfloor> \<le> m" by (simp add: floor_le_iff)
  ultimately show ?thesis by simp
next
  case False
  moreover have "of_int \<lfloor>y\<rfloor> \<le> y" by (rule of_int_floor_le)
  ultimately have "of_int \<lfloor>y\<rfloor> < y" by (metis le_less)
  with assms have "of_int \<lfloor>y\<rfloor> < (of_int m :: real)" by linarith
  then have "\<lfloor>y\<rfloor> < m" by simp
  then show ?thesis
    unfolding round_half_even_def Let_def by auto
qed

lemma exponent_of_props:
  assumes "0 < a" and "a < huge"
  shows "- 1022 \<le> exponent_of a" and "a < 2 powi (exponent_of a + 1)"
    and "2 powi (- 1022) \<le> a \<Longrightarrow> 2 powi (exponent_of a) \<le> a"
proof -
  have sub: "a < 1 / 2 ^ 1022 \<Longrightarrow> a < 2 powi (- 1022 + 1)"
  proof -
    assume "a < 1 / 2 ^ 1022"
    moreover have "(1::real) / 2 ^ 1022 \<le> 2 powi (- 1022 + 1)"
      by (simp add: power_int_def power_one_over)
    ultimately show ?thesis by linarith
  qed
  have norm: "2 powi (binade 1100 a) \<le> a \<and> a < 2 powi (binade 1100 a + 1)"
    if "\<not> a < 1 / 2 ^ 1022"
  proof (rule binade_correct)
    have "(2::real) powi (- int 1100) \<le> 1 / 2 ^ 1022"
      by (simp add: power_int_def power_one_over)
    with that show "2 powi (- int 1100) \<le> a" by linarith
    have "huge \<le> 2 ^ (1100 + 1)" by (simp add: huge_def)
    with assms(2) show "a < 2 ^ (1100 + 1)" by linarith
  qed
  have lowp: "(2::real) powi (- 1022) = 1 / 2 ^ 1022"
    by (simp add: power_int_def power_one_over)
  show "- 1022 \<le> exponent_of a"
  proof (cases "a < 1 / 2 ^ 1022")
    case True
    then show ?thesis by (simp add: exponent_of_def)
  next
    case False
    with norm have "a < 2 powi (binade 1100 a + 1)" by simp
    moreover from False have "2 powi (- 1022) \<le> a" by (simp add: lowp)
    ultimately have "(2::real) powi (- 1022) < 2 powi (binade 1100 a + 1)" by linarith
    then have "- 1022 < binade 1100 a + 1"
      by (rule pow2_less_D)
    with False show ?thesis by (simp add: exponent_of_def)
  qed
  show "a < 2 powi (exponent_of a + 1)"
    using sub norm by (cases "a < 1 / 2 ^ 1022") (simp_all add: exponent_of_def)
  show "2 powi (exponent_of a) \<le> a" if "2 powi (- 1022) \<le> a"
  proof -
    from that have "\<not> a < 1 / 2 ^ 1022" by (simp add: lowp)
    with norm show ?thesis by (simp add: exponent_of_def)
  qed
qed

lemma round_to_double_pos:
  assumes "0 < x" and "x < huge"
  shows "round_to_double x =
           (if huge \<le> of_int (round_half_even (x / 2 powi (exponent_of x - 52)))
                              * 2 powi (exponent_of x - 52)
            then PInf
            else Dbl (of_int (round_half_even (x / 2 powi (exponent_of x - 52)))
                      * 2 powi (exponent_of x - 52)))"
  using assms by (simp add: round_to_double_def Let_def)

text \<open>Rounding keeps the sign, and keeps a value on its side of a power of two.\<close>

lemma round_to_double_nonneg:
  assumes "0 \<le> x"
  shows "round_to_double x = PInf \<or> (\<exists>y. round_to_double x = Dbl y \<and> 0 \<le> y)"
proof (cases "x = 0")
  case True
  then show ?thesis by (simp add: round_to_double_def)
next
  case False
  with assms have pos: "0 < x" by simp
  show ?thesis
  proof (cases "x < huge")
    case False
    with pos show ?thesis by (simp add: round_to_double_def Let_def)
  next
    case True
    have "(of_int 0 :: real) \<le> x / 2 powi (exponent_of x - 52)"
      using pos by simp
    then have "0 \<le> round_half_even (x / 2 powi (exponent_of x - 52))"
      by (rule round_half_even_ge)
    then have "0 \<le> real_of_int (round_half_even (x / 2 powi (exponent_of x - 52)))
                    * 2 powi (exponent_of x - 52)"
      by simp
    then show ?thesis
      unfolding round_to_double_pos [OF pos True] by simp
  qed
qed

lemma round_to_double_le_pow2:
  assumes "0 \<le> x" and "x \<le> 2 powi k" and "- 1022 \<le> k" and "k \<le> 1023"
  shows "\<exists>y. round_to_double x = Dbl y \<and> 0 \<le> y \<and> y \<le> 2 powi k"
proof (cases "x = 0")
  case True
  then show ?thesis by (simp add: round_to_double_def)
next
  case False
  with assms have pos: "0 < x" by simp
  have "(2::real) powi k \<le> 2 powi 1023"
    using assms(4) by (intro power_int_increasing) simp_all
  also have "\<dots> < huge" by (simp add: power_int_def huge_def)
  finally have top: "(2::real) powi k < huge" .
  with assms(2) have lt: "x < huge" by linarith
  define e where "e = exponent_of x"
  define q :: real where "q = 2 powi (e - 52)"
  define n where "n = round_half_even (x / q)"
  have qpos: "0 < q" by (simp add: q_def)
  have ek: "e \<le> k"
  proof (cases "2 powi (- 1022) \<le> x")
    case True
    from exponent_of_props(3) [OF pos lt True] have "2 powi e \<le> x" by (simp add: e_def)
    with assms(2) have "(2::real) powi e \<le> 2 powi k" by linarith
    then show ?thesis by (rule pow2_le_D)
  next
    case False
    then have "x < 1 / 2 ^ 1022" by (simp add: power_int_def power_one_over)
    then have "e = - 1022" by (simp add: e_def exponent_of_def)
    with assms(3) show ?thesis by simp
  qed
  have "(2::real) powi k = 2 powi (k - e + 52) * q"
    unfolding q_def by (simp flip: power_int_add)
  also have "(2::real) powi (k - e + 52) = of_int (2 ^ nat (k - e + 52))"
    using ek by (simp add: power_int_def)
  finally have kq: "(2::real) powi k = of_int (2 ^ nat (k - e + 52)) * q" .
  have "x / q \<le> of_int (2 ^ nat (k - e + 52))"
    using assms(2) qpos unfolding kq by (simp add: field_simps)
  then have "n \<le> 2 ^ nat (k - e + 52)"
    unfolding n_def by (rule round_half_even_le)
  then have "real_of_int n \<le> of_int (2 ^ nat (k - e + 52))"
    by (simp only: of_int_le_iff)
  then have upper: "real_of_int n * q \<le> 2 powi k"
    unfolding kq using qpos by (simp add: mult_right_mono)
  have "(of_int 0 :: real) \<le> x / q" using pos qpos by simp
  then have "0 \<le> n" unfolding n_def by (rule round_half_even_ge)
  then have lower: "0 \<le> real_of_int n * q" using qpos by simp
  from upper top have "\<not> huge \<le> real_of_int n * q" by linarith
  then have "round_to_double x = Dbl (real_of_int n * q)"
    unfolding round_to_double_pos [OF pos lt] n_def q_def e_def by simp
  with lower upper show ?thesis by blast
qed

lemma round_to_double_ge_pow2:
  assumes "2 powi k \<le> x" and "- 1022 \<le> k"
  shows "round_to_double x = PInf \<or> (\<exists>y. round_to_double x = Dbl y \<and> 2 powi k \<le> y)"
proof (cases "x < huge")
  case False
  have "(0::real) < 2 powi k" by simp
  with assms(1) have "0 < x" by linarith
  with False show ?thesis by (simp add: round_to_double_def Let_def)
next
  case lt: True
  have "(0::real) < 2 powi k" by simp
  with assms(1) have pos: "0 < x" by linarith
  define e where "e = exponent_of x"
  define q :: real where "q = 2 powi (e - 52)"
  define n where "n = round_half_even (x / q)"
  have qpos: "0 < q" by (simp add: q_def)
  have "(2::real) powi (- 1022) \<le> 2 powi k"
    using assms(2) by (intro power_int_increasing) simp_all
  with assms(1) have normal: "2 powi (- 1022) \<le> x" by linarith
  from exponent_of_props(3) [OF pos lt normal] have ex: "2 powi e \<le> x" by (simp add: e_def)
  from exponent_of_props(2) [OF pos lt] have xe: "x < 2 powi (e + 1)" by (simp add: e_def)
  from assms(1) xe have "(2::real) powi k < 2 powi (e + 1)" by linarith
  then have "k < e + 1" by (rule pow2_less_D)
  then have "k \<le> e" by simp
  then have ke: "(2::real) powi k \<le> 2 powi e"
    by (intro power_int_increasing) simp_all
  have eq: "(2::real) powi e = of_int (2 ^ 52) * q"
    unfolding q_def by (simp add: power_int_diff)
  have "of_int (2 ^ 52) \<le> x / q"
    using ex qpos unfolding eq by (simp add: field_simps)
  then have "2 ^ 52 \<le> n" unfolding n_def by (rule round_half_even_ge)
  then have "(of_int (2 ^ 52) :: real) \<le> of_int n" by (simp only: of_int_le_iff)
  then have "of_int (2 ^ 52) * q \<le> real_of_int n * q"
    using qpos by (simp add: mult_right_mono)
  with eq ke have lower: "2 powi k \<le> real_of_int n * q" by linarith
  show ?thesis
  proof (cases "huge \<le> real_of_int n * q")
    case True
    then have "round_to_double x = PInf"
      unfolding round_to_double_pos [OF pos lt] n_def q_def e_def by simp
    then show ?thesis by simp
  next
    case False
    then have "round_to_double x = Dbl (real_of_int n * q)"
      unfolding round_to_double_pos [OF pos lt] n_def q_def e_def by simp
    with lower show ?thesis by blast
  qed
qed

section \<open>Effective hours as the program computes them\<close>

lemma c0_967_value: "c0_967 = Dbl (8709961679334539 / 9007199254740992)"
  unfolding c0_967_def by (simp add: double_eval)

lemma c0_967_bounds:
  obtains c where "c0_967 = Dbl c" and "1 / 2 \<le> c" and "c \<le> 1"
  using c0_967_value by simp

lemmas effectiveHours_fl_eval =
  effectiveHours_fl_def c0_967_value Math_max_def Math_min_def isNaN_def double_eval

text \<open>
  Up to 8 hours on a normal day the program's value is the formula's value,
  rounded once; at the hours that the specification pins, it is the pinned
  value itself.
\<close>

lemma effectiveHours_fl_upto_8:
  assumes "h \<le> 8"
  shows "effectiveHours_fl (Dbl h) False False =
           (if h < 4 then Dbl (effectiveHours h False False)
            else round_to_double (effectiveHours h False False))"
  using assms by (simp add: effectiveHours_fl_def effectiveHours_def)

lemma effectiveHours_fl_pinned:
  "effectiveHours_fl (Dbl 8) False False = Dbl 7.25"
  "effectiveHours_fl (Dbl 4) False False = Dbl 3.25"
  "effectiveHours_fl (Dbl 8) True False = Dbl 7.25"
  by (simp_all add: effectiveHours_fl_eval)

lemma add_7_25_ge:
  assumes "0 \<le> z"
  shows "dadd (Dbl 7.25) (Dbl z) = PInf
         \<or> (\<exists>f. dadd (Dbl 7.25) (Dbl z) = Dbl f \<and> 1 / 2 \<le> f)"
proof -
  have "2 powi 2 \<le> 7.25 + z" using assms by simp
  from round_to_double_ge_pow2 [OF this]
  have "round_to_double (7.25 + z) = PInf
        \<or> (\<exists>y. round_to_double (7.25 + z) = Dbl y \<and> 2 powi 2 \<le> y)" by simp
  then show ?thesis by auto
qed

lemma overtime_tail_ge:
  assumes "d = PInf \<or> (\<exists>y. d = Dbl y \<and> 0 \<le> y)"
  shows "dadd (Dbl 7.25) (dmul d c0_967) = PInf
         \<or> (\<exists>f. dadd (Dbl 7.25) (dmul d c0_967) = Dbl f \<and> 1 / 2 \<le> f)"
proof -
  obtain c where c: "c0_967 = Dbl c" and c_lo: "1 / 2 \<le> c" and c_hi: "c \<le> 1"
    by (rule c0_967_bounds)
  from assms show ?thesis
  proof
    assume "d = PInf"
    then show ?thesis using c_lo by (simp add: c)
  next
    assume "\<exists>y. d = Dbl y \<and> 0 \<le> y"
    then obtain y where d: "d = Dbl y" and y: "0 \<le> y" by blast
    have "0 \<le> y * c" using y c_lo by simp
    from round_to_double_nonneg [OF this] show ?thesis
    proof
      assume "round_to_double (y * c) = PInf"
      then show ?thesis by (simp add: d c)
    next
      assume "\<exists>z. round_to_double (y * c) = Dbl z \<and> 0 \<le> z"
      then obtain z where z: "round_to_double (y * c) = Dbl z" and "0 \<le> z" by blast
      from add_7_25_ge [OF this(2)] show ?thesis by (simp add: d c z)
    qed
  qed
qed

text \<open>From one hour on, the effective hours are at least one half, or infinite.\<close>

lemma effectiveHours_fl_lower:
  assumes "1 \<le> h"
  shows "effectiveHours_fl (Dbl h) ot fd = PInf
         \<or> (\<exists>f. effectiveHours_fl (Dbl h) ot fd = Dbl f \<and> 1 / 2 \<le> f)"
proof (cases fd)
  case True
  obtain c where c: "c0_967 = Dbl c" and c_lo: "1 / 2 \<le> c" and c_hi: "c \<le> 1"
    by (rule c0_967_bounds)
  have "1 * (1 / 2) \<le> h * c"
    using assms c_lo by (intro mult_mono) simp_all
  then have "2 powi (- 1) \<le> h * c" by (simp add: power_int_def)
  from round_to_double_ge_pow2 [OF this]
  have "round_to_double (h * c) = PInf
        \<or> (\<exists>y. round_to_double (h * c) = Dbl y \<and> 2 powi (- 1) \<le> y)" by simp
  then show ?thesis
    using True by (auto simp add: effectiveHours_fl_def c power_int_def)
next
  case nofd: False
  show ?thesis
  proof (cases ot)
    case True
    have clamp: "Math_max (Dbl 8) (Math_min (Dbl h) (Dbl 16)) = Dbl (max 8 (min h 16))"
      by (simp add: Math_max_def Math_min_def isNaN_def min_def max_def)
    have "0 \<le> max 8 (min h 16) - 8" by simp
    from round_to_double_nonneg [OF this]
    have "dsub (Dbl (max 8 (min h 16))) (Dbl 8) = PInf
          \<or> (\<exists>y. dsub (Dbl (max 8 (min h 16))) (Dbl 8) = Dbl y \<and> 0 \<le> y)"
      by simp
    from overtime_tail_ge [OF this] show ?thesis
      using True nofd by (simp add: effectiveHours_fl_def clamp)
  next
    case noot: False
    show ?thesis
    proof (cases "h < 4")
      case True
      then show ?thesis using nofd noot assms by (simp add: effectiveHours_fl_def)
    next
      case ge4: False
      show ?thesis
      proof (cases "h \<le> 8")
        case True
        have "2 powi 1 \<le> h - 0.75" using ge4 by simp
        from round_to_double_ge_pow2 [OF this]
        have "round_to_double (h - 0.75) = PInf
              \<or> (\<exists>y. round_to_double (h - 0.75) = Dbl y \<and> 2 powi 1 \<le> y)" by simp
        then show ?thesis
          using True ge4 nofd noot by (auto simp add: effectiveHours_fl_def)
      next
        case False
        then have "0 \<le> h - 8" by simp
        from round_to_double_nonneg [OF this]
        have "dsub (Dbl h) (Dbl 8) = PInf \<or> (\<exists>y. dsub (Dbl h) (Dbl 8) = Dbl y \<and> 0 \<le> y)"
          by simp
        from overtime_tail_ge [OF this] show ?thesis
          using False ge4 nofd noot by (simp add: effectiveHours_fl_def)
      qed
    qed
  qed
qed

section \<open>Performance percentage\<close>



lemmas computePerformancePercentage_eval =
  computePerformancePercentage_def effectiveHours_fl_eval



text \<open>The two values that the specification lists for the percentage.\<close>

lemma computePerformancePercentage_examples:
  "computePerformancePercentage
     \<lparr>performance = Dbl 0, hours = Dbl 8, overtime = False, freeDay = False\<rparr> = Dbl 0"
  "computePerformancePercentage
     \<lparr>performance = Dbl 7.25, hours = Dbl 8, overtime = False, freeDay = False\<rparr>
     = Dbl 100"
  by (simp_all add: computePerformancePercentage_eval)

text \<open>
  Claim C7, as stated, fails. It says that the performance percentage of every
  entry is a non-negative integer. But nothing in the program keeps the raw
  performance from being negative or very large, or the hours from being very
  small: a performance of -7.25 in 8 normal hours scores -100, a performance of
  1e308 in 1 hour scores Infinity, and so does a performance of 1 in the least
  positive number of hours.
\<close>

theorem computePerformancePercentage_negative:
  "computePerformancePercentage
     \<lparr>performance = Dbl (- 7.25), hours = Dbl 8, overtime = False, freeDay = False\<rparr>
     = Dbl (- 100)
   \<and> computePerformancePercentage
       \<lparr>performance = round_to_double (10 ^ 308), hours = Dbl 1,
        overtime = False, freeDay = False\<rparr> = PInf
   \<and> computePerformancePercentage
       \<lparr>performance = Dbl 1, hours = Dbl (1 / 2 ^ 1074),
        overtime = False, freeDay = False\<rparr> = PInf"
  by (simp add: computePerformancePercentage_eval)

lemma percentage_of_quotient:
  assumes "0 \<le> y" and "y \<le> 2 powi 1000"
  shows "\<exists>n. Math_round (dmul (Dbl y) (Dbl 100)) = Dbl (of_int n) \<and> 0 \<le> n"
proof -
  have "(100::real) \<le> 2 powi 7" by (simp add: power_int_def)
  then have "y * 100 \<le> 2 powi 1000 * 2 powi 7"
    using assms by (intro mult_mono) simp_all
  also have "\<dots> = 2 powi 1007" by (simp flip: power_int_add)
  finally have "y * 100 \<le> 2 powi 1007" .
  moreover have "0 \<le> y * 100" using assms by simp
  ultimately obtain z where z: "round_to_double (y * 100) = Dbl z" and "0 \<le> z"
    using round_to_double_le_pow2 [of "y * 100" 1007] by auto
  then have "0 \<le> \<lfloor>z + 1 / 2\<rfloor>" by simp
  with z show ?thesis by auto
qed

text \<open>
  Claim C7, amended: for every entry that has at least 1 hour and a raw
  performance from 0 up to 1e300, the performance percentage is a non-negative
  integer.
\<close>

theorem computePerformancePercentage_nonneg:
  assumes "performance e = Dbl p" and "0 \<le> p" and "p \<le> 10 ^ 300"
    and "hours e = Dbl h" and "1 \<le> h"
  shows "\<exists>n. computePerformancePercentage e = Dbl (of_int n) \<and> 0 \<le> n"
proof -
  define eff where "eff = effectiveHours_fl (hours e) (overtime e) (freeDay e)"
  from effectiveHours_fl_lower [OF assms(5)]
  have "eff = PInf \<or> (\<exists>f. eff = Dbl f \<and> 1 / 2 \<le> f)"
    by (simp add: eff_def assms(4))
  then show ?thesis
  proof
    assume "eff = PInf"
    then have "computePerformancePercentage e = Dbl (of_int 0)"
      by (simp add: computePerformancePercentage_def eff_def [symmetric] assms(1)
          round_to_double_def)
    then show ?thesis by blast
  next
    assume "\<exists>f. eff = Dbl f \<and> 1 / 2 \<le> f"
    then obtain f where f: "eff = Dbl f" and half: "1 / 2 \<le> f" by blast
    have "p / f \<le> p / (1 / 2)"
      using half assms(2) by (intro divide_left_mono) simp_all
    also have "\<dots> \<le> 2 * 10 ^ 300" using assms(3) by simp
    also have "\<dots> \<le> 2 powi 1000" by (simp add: power_int_def)
    finally have "p / f \<le> 2 powi 1000" .
    moreover have "0 \<le> p / f" using half assms(2) by simp
    ultimately obtain y where y: "round_to_double (p / f) = Dbl y"
      and "0 \<le> y" and "y \<le> 2 powi 1000"
      using round_to_double_le_pow2 [of "p / f" 1000] by auto
    from percentage_of_quotient [OF this(2,3)] obtain n
      where "Math_round (dmul (Dbl y) (Dbl 100)) = Dbl (of_int n)" and "0 \<le> n" by blast
    moreover have "computePerformancePercentage e = Math_round (dmul (Dbl y) (Dbl 100))"
      using half
      by (simp add: computePerformancePercentage_def eff_def [symmetric] f assms(1) y)
    ultimately show ?thesis by auto
  qed
qed

theorem computePerformancePercentage_nonneg_witness:
  "(0::real) \<le> 9 \<and> (9::real) \<le> 10 ^ 300 \<and> (1::real) \<le> 10
   \<and> (\<exists>n. computePerformancePercentage
              \<lparr>performance = Dbl 9, hours = Dbl 10, overtime = True, freeDay = False\<rparr>
            = Dbl (of_int n) \<and> 0 \<le> n)"
  using computePerformancePercentage_nonneg
      [of "\<lparr>performance = Dbl 9, hours = Dbl 10, overtime = True, freeDay = False\<rparr>" 9 10]
  by simp

section \<open>The ongoing shift\<close>

text \<open>
  Claim C9. The shift is found by trying the half-open minute-of-day ranges in
  order, morning [05:45, 14:15) first, then evening [13:45, 22:15), otherwise
  night, and the first match wins. So every minute of the overlap
  [13:45, 14:15), 14:00 among them, is morning; and the default start time is
  the boundary of the same branch: 05:45 for morning, 13:45 for evening, 21:45
  for night.
\<close>

theorem getOngoingShift_first_match:
  "(5 * 60 + 45 \<le> hr * 60 + mn \<and> hr * 60 + mn < 14 * 60 + 15 \<longrightarrow>
      getOngoingShift hr mn = morning)
   \<and> (\<not> (5 * 60 + 45 \<le> hr * 60 + mn \<and> hr * 60 + mn < 14 * 60 + 15)
       \<and> 13 * 60 + 45 \<le> hr * 60 + mn \<and> hr * 60 + mn < 22 * 60 + 15 \<longrightarrow>
      getOngoingShift hr mn = evening)
   \<and> (\<not> (5 * 60 + 45 \<le> hr * 60 + mn \<and> hr * 60 + mn < 14 * 60 + 15)
       \<and> \<not> (13 * 60 + 45 \<le> hr * 60 + mn \<and> hr * 60 + mn < 22 * 60 + 15) \<longrightarrow>
      getOngoingShift hr mn = night)
   \<and> (13 * 60 + 45 \<le> hr * 60 + mn \<and> hr * 60 + mn < 14 * 60 + 15 \<longrightarrow>
      getOngoingShift hr mn = morning)
   \<and> getOngoingShift 14 0 = morning
   \<and> getDefaultStartTime hr mn = startBoundary (getOngoingShift hr mn)"
  by (simp add: getOngoingShift_def getDefaultStartTime_def Let_def)

theorem getOngoingShift_first_match_witness:
  "getOngoingShift 13 50 = morning \<and> getDefaultStartTime 13 50 = ''05:45''
   \<and> getOngoingShift 15 0 = evening \<and> getDefaultStartTime 15 0 = ''13:45''
   \<and> getOngoingShift 23 30 = night \<and> getDefaultStartTime 23 30 = ''21:45''"
  using getOngoingShift_first_match [of 13 50] getOngoingShift_first_match [of 15 0]
    getOngoingShift_first_match [of 23 30]
  by simp

section \<open>Hours between two clock times\<close>

lemma of_char_eq_numeral:
  assumes "(of_char c :: nat) = of_char d"
  shows "c = d"
  using assms by simp

lemma is_digit_10_cases:
  assumes "is_digit 10 c"
  shows "c \<in> set ''0123456789''"
proof -
  from assms have "48 \<le> (of_char c :: nat) \<and> (of_char c :: nat) \<le> 57"
    by (auto simp add: is_digit_def digit_value_def Let_def split: if_splits)
  then have "(of_char c :: nat) \<in> of_char ` set ''0123456789''"
    by simp arith
  then obtain d where "d \<in> set ''0123456789''" and "(of_char c :: nat) = of_char d"
    by blast
  then show ?thesis
    using of_char_eq_numeral by blast
qed

lemma is_digit_10_not_special:
  assumes "is_digit 10 c"
  shows "\<not> StrWhiteSpaceChar c" and "c \<noteq> CHR ''-''" and "c \<noteq> CHR ''+''"
    and "c \<noteq> CHR '':''"
  using is_digit_10_cases [OF assms] by (auto simp add: StrWhiteSpaceChar_def)

lemma trim_two_digits:
  assumes "is_digit 10 a" and "is_digit 10 b"
  shows "trim [a, b] = [a, b]"
  using is_digit_10_not_special(1) [OF assms(1)] is_digit_10_not_special(1) [OF assms(2)]
  by (simp add: trim_def)

lemma StrUnsignedDecimalLiteral_two_digits:
  assumes "is_digit 10 a" and "is_digit 10 b"
  shows "StrUnsignedDecimalLiteral [a, b] = Some (real (digits_value 10 [a, b]))"
  using assms
  by (simp add: StrUnsignedDecimalLiteral_def ExponentPart_def digits_value_def)

lemma Number_js_two_digits:
  assumes "is_digit 10 a" and "is_digit 10 b"
  shows "Number_js [a, b] = Num (real (digits_value 10 [a, b]))"
  using is_digit_10_not_special(2,3) [OF assms(1)]
  by (simp add: Number_js_def trim_two_digits [OF assms] NonDecimalIntegerLiteral_def
      StrUnsignedDecimalLiteral_two_digits [OF assms])

lemma split_on_ClockTime:
  assumes "is_digit 10 a" and "is_digit 10 b" and "is_digit 10 c" and "is_digit 10 d"
  shows "split_on CHR '':'' [a, b, CHR '':'', c, d] = [[a, b], [c, d]]"
  using assms [THEN is_digit_10_not_special(4)] by simp

lemma is_ClockTime_D:
  assumes "is_ClockTime s"
  obtains a b c d where "s = [a, b, CHR '':'', c, d]"
    and "is_digit 10 a" and "is_digit 10 b" and "is_digit 10 c" and "is_digit 10 d"
  using assms unfolding is_ClockTime_def
  by (auto split: list.splits)

lemma ToIntegerOrInfinity_nat: "ToIntegerOrInfinity (real n) = int n"
  by (simp add: ToIntegerOrInfinity_def)

lemma components_ClockTime:
  assumes "is_ClockTime s"
  shows "map Number_js (split_on CHR '':'' s)
         = [Num (real (hourOf s)), Num (real (minuteOf s))]"
proof -
  from assms obtain a b c d where s: "s = [a, b, CHR '':'', c, d]"
    and d: "is_digit 10 a" "is_digit 10 b" "is_digit 10 c" "is_digit 10 d"
    by (rule is_ClockTime_D)
  show ?thesis
    unfolding s split_on_ClockTime [OF d] hourOf_def minuteOf_def
    by (simp add: Number_js_two_digits d)
qed

lemmas Number_js_eval =
  Number_js_def trim_def StrWhiteSpaceChar_def NonDecimalIntegerLiteral_def
  StrUnsignedDecimalLiteral_def ExponentPart_def is_digit_def digit_value_def
  digits_value_def

lemmas computeHoursFromTimes_eval =
  computeHoursFromTimes_def Number_js_eval element_def Date_getTime_def
  ToIntegerOrInfinity_def Let_def

text \<open>
  Claim C8. For every pair of well-formed clock times, the duration is \<open>end\<close>
  minus \<open>start\<close> in hours, with 24 hours added when the hour of \<open>end\<close> is strictly
  less than the hour of \<open>start\<close> (the end is taken to be on the next day), and
  the result is cut off below at 0, so it is never negative. In particular the
  duration from 21:45 to 06:15 is 8.5 hours.
\<close>

theorem computeHoursFromTimes_ClockTime:
  assumes "is_ClockTime start" and "is_ClockTime end"
  shows "computeHoursFromTimes start end =
           Num (max 0 ((real (hourOf end) + real (minuteOf end) / 60)
                       - (real (hourOf start) + real (minuteOf start) / 60)
                       + (if hourOf end < hourOf start then 24 else 0)))
         \<and> computeHoursFromTimes ''21:45'' ''06:15'' = Num 8.5"
proof
  have ne: "start \<noteq> []" "end \<noteq> []"
    using assms by (auto simp add: is_ClockTime_def)
  show "computeHoursFromTimes start end =
           Num (max 0 ((real (hourOf end) + real (minuteOf end) / 60)
                       - (real (hourOf start) + real (minuteOf start) / 60)
                       + (if hourOf end < hourOf start then 24 else 0)))"
    unfolding computeHoursFromTimes_def
    by (simp add: ne components_ClockTime [OF assms(1)] components_ClockTime [OF assms(2)]
        element_def Date_getTime_def ToIntegerOrInfinity_nat Let_def max_def field_simps)
  show "computeHoursFromTimes ''21:45'' ''06:15'' = Num 8.5"
    by (simp add: computeHoursFromTimes_eval)
qed

theorem computeHoursFromTimes_ClockTime_witness:
  "is_ClockTime ''10:00'' \<and> is_ClockTime ''09:30''
   \<and> computeHoursFromTimes ''10:00'' ''09:30'' = Num 23.5
   \<and> is_ClockTime ''10:30'' \<and> is_ClockTime ''10:15''
   \<and> computeHoursFromTimes ''10:30'' ''10:15'' = Num 0
   \<and> is_ClockTime ''05:45'' \<and> is_ClockTime ''13:45''
   \<and> computeHoursFromTimes ''05:45'' ''13:45'' = Num 8"
proof -
  have w: "is_ClockTime ''10:00''" "is_ClockTime ''09:30''" "is_ClockTime ''10:30''"
    "is_ClockTime ''10:15''" "is_ClockTime ''05:45''" "is_ClockTime ''13:45''"
    by (simp_all add: is_ClockTime_def is_digit_def digit_value_def digits_value_def)
  show ?thesis
    using w computeHoursFromTimes_ClockTime [OF w(1) w(2)]
      computeHoursFromTimes_ClockTime [OF w(3) w(4)]
      computeHoursFromTimes_ClockTime [OF w(5) w(6)]
    by (simp add: hourOf_def minuteOf_def digits_value_def digit_value_def)
qed

text \<open>
  Claim C10. The duration is exactly 0 whenever the start string or the end
  string is empty, whatever the other string is: the test comes before any
  parsing.
\<close>

theorem computeHoursFromTimes_empty:
  assumes "start = [] \<or> end = []"
  shows "computeHoursFromTimes start end = Num 0"
  using assms by (simp add: computeHoursFromTimes_def)

theorem computeHoursFromTimes_empty_witness:
  "computeHoursFromTimes [] ''06:15'' = Num 0
   \<and> computeHoursFromTimes ''ab:cd'' [] = Num 0
   \<and> computeHoursFromTimes [] [] = Num 0"
  using computeHoursFromTimes_empty [of "[]" "''06:15''"]
    computeHoursFromTimes_empty [of "''ab:cd''" "[]"]
    computeHoursFromTimes_empty [of "[]" "[]"]
  by simp

text \<open>
  Claim C6, as stated, fails: a component that does not parse raises no
  \<open>InvalidTimeFormat\<close> error. The call from \<open>ab:cd\<close> to \<open>06:15\<close> returns, and what
  it returns is NaN.
\<close>

theorem computeHoursFromTimes_no_error:
  "computeHoursFromTimes_outcome ''ab:cd'' ''06:15'' \<noteq> Inl InvalidTimeFormat
   \<and> computeHoursFromTimes_outcome ''ab:cd'' ''06:15'' = Inr NaN"
  by (simp add: computeHoursFromTimes_outcome_def computeHoursFromTimes_eval)

text \<open>
  Claim C6, amended: the duration function never fails. When the two strings
  are not empty and an hour or minute component of either is missing or does
  not convert to a finite number, the call returns NaN to the caller; nothing
  is repaired.
\<close>

theorem computeHoursFromTimes_unparsed:
  "(\<exists>v. computeHoursFromTimes_outcome start end = Inr v)
   \<and> (start \<noteq> [] \<and> end \<noteq> []
       \<and> (element (map Number_js (split_on CHR '':'' start)) 0 = NaN
          \<or> element (map Number_js (split_on CHR '':'' start)) 1 = NaN
          \<or> element (map Number_js (split_on CHR '':'' end)) 0 = NaN
          \<or> element (map Number_js (split_on CHR '':'' end)) 1 = NaN)
       \<longrightarrow> computeHoursFromTimes_outcome start end = Inr NaN)"
proof (intro conjI impI)
  show "\<exists>v. computeHoursFromTimes_outcome start end = Inr v"
    by (simp add: computeHoursFromTimes_outcome_def)
  assume "start \<noteq> [] \<and> end \<noteq> []
       \<and> (element (map Number_js (split_on CHR '':'' start)) 0 = NaN
          \<or> element (map Number_js (split_on CHR '':'' start)) 1 = NaN
          \<or> element (map Number_js (split_on CHR '':'' end)) 0 = NaN
          \<or> element (map Number_js (split_on CHR '':'' end)) 1 = NaN)"
  then show "computeHoursFromTimes_outcome start end = Inr NaN"
    by (auto simp add: computeHoursFromTimes_outcome_def computeHoursFromTimes_def
        Date_getTime_def Let_def split: jsnum.splits)
qed

theorem computeHoursFromTimes_unparsed_witness:
  "computeHoursFromTimes_outcome ''7'' ''09:30'' = Inr NaN
   \<and> computeHoursFromTimes_outcome ''21:45'' ''6.15pm'' = Inr NaN"
proof -
  have a: "element (map Number_js (split_on CHR '':'' ''7'')) 1 = NaN"
    by (simp add: element_def)
  have b: "element (map Number_js (split_on CHR '':'' ''6.15pm'')) 0 = NaN"
    by (simp add: element_def Number_js_eval)
  show ?thesis
    using computeHoursFromTimes_unparsed [of "''7''" "''09:30''"] a
      computeHoursFromTimes_unparsed [of "''21:45''" "''6.15pm''"] b
    by simp
qed

section \<open>The average over a period\<close>

lemmas calculateAverage_eval =
  calculateAverage_def DailyData_object_def DateData_object_def get_property_def
  every_date_def isNaN_def digit_char_def double_eval

text \<open>
  Claim C5 says that the mean keeps the keys whose record has the requested
  track and averages the performance of that track. The code does not: at the
  record that App.tsx stores for a day with a normal entry of performance 8,
  passed with every date included, \<open>calculateAverage\<close> finds no \<open>performance\<close>
  property, counts the day as 0 and returns \<open>0.00\<close>, where the mean of the
  claim over the normal track is 8.
\<close>

theorem calculateAverage_ignores_track:
  "calculateAverage id
     [(''2024-01-05'',
       DailyData_object
         \<lparr>normal = Some \<lparr>performance = Dbl 8, hours = Dbl 8,
                          overtime = False, freeDay = False\<rparr>,
          forklift = None\<rparr>)]
     every_date = ''0.00''
   \<and> meanPerformance_spec id
       [(''2024-01-05'',
         \<lparr>normal = Some \<lparr>performance = Dbl 8, hours = Dbl 8,
                          overtime = False, freeDay = False\<rparr>,
          forklift = None\<rparr>)]
       every_date Normal = 8"
  by (simp add: calculateAverage_eval meanPerformance_spec_def track_of_def
      numeric_or_0_def)

text \<open>
  On entries that carry their performance themselves, the sum and the quotient
  are those of the program's doubles: five entries with performance 0.375, 0,
  0, 0 and 0 give \<open>0.07\<close>, the double \<open>0.375 / 5\<close> lying just below 0.075.
\<close>

lemma calculateAverage_of_doubles:
  "calculateAverage id
     [(''2024-01-01'',
       DateData_object
         \<lparr>performance = Dbl 0.375, hours = Dbl 8, overtime = False, freeDay = False\<rparr>),
      (''2024-01-02'',
       DateData_object
         \<lparr>performance = Dbl 0, hours = Dbl 8, overtime = False, freeDay = False\<rparr>),
      (''2024-01-03'',
       DateData_object
         \<lparr>performance = Dbl 0, hours = Dbl 8, overtime = False, freeDay = False\<rparr>),
      (''2024-01-04'',
       DateData_object
         \<lparr>performance = Dbl 0, hours = Dbl 8, overtime = False, freeDay = False\<rparr>),
      (''2024-01-05'',
       DateData_object
         \<lparr>performance = Dbl 0, hours = Dbl 8, overtime = False, freeDay = False\<rparr>)]
     every_date = ''0.07''"
  by (simp add: calculateAverage_eval)

end
